theory Spec2Isabelle
  imports Complex_Main
begin

section \<open>Fractional-pixel spectral extraction from an IFU cube\<close>

text \<open>
  The repository is one notebook, \<^verbatim>\<open>fractional_pixel_extraction.ipynb\<close>. Its code cells
  run top to bottom: read the region selected in the viewer, read the SCI and ERR planes
  and the WCS from the FITS file, turn the pixel region into a sky region and a sky
  aperture, read the cube as a \<^verbatim>\<open>Spectrum1D\<close>, sum every spectral slice inside an
  aperture whose radius grows with the wavelength, and put the sums into a new
  \<^verbatim>\<open>Spectrum1D\<close>.

  The embedding follows those cells. What the notebook writes itself (the arithmetic on
  the radius, the order of the calls, the \<^verbatim>\<open>zip\<close> loop with its two accumulators, the
  assembly of the result) is translated line by line. What it delegates is a parameter:
  \<^item> the outcome of \<^verbatim>\<open>get_selection_definition\<close>, of the \<^verbatim>\<open>fits.open\<close> block and of
    \<^verbatim>\<open>Spectrum1D.read\<close> is an input of type \<open>error + _\<close> (\<open>Inl\<close> when the call raises);
  \<^item> \<^verbatim>\<open>pixel_to_world\<close> and \<^verbatim>\<open>aperture_photometry\<close> are functions that may raise;
  \<^item> the constructors \<^verbatim>\<open>CircleSkyRegion\<close>, \<^verbatim>\<open>SkyCircularAperture\<close> and \<^verbatim>\<open>Spectrum1D\<close>
    check their arguments and may raise: for each, a function says what it raises for
    the object asked for, \<open>None\<close> when it raises nothing and returns that object.

  The numbers the notebook reads (the pixel region, \<^verbatim>\<open>cdelt\<close>, the wavelengths) are real
  numbers, and rounding and overflow are outside the model. The numbers it computes are
  real or \<open>NonFinite\<close>: the square root of a negative number and a quotient by zero
  raise nothing in numpy and give \<^verbatim>\<open>nan\<close> or \<^verbatim>\<open>inf\<close>. What \<^verbatim>\<open>aperture_photometry\<close> returns
  is only stored, and is of any type. A \<^verbatim>\<open>Quantity\<close> is a value with the name of its
  unit. The
  download cell, the viewer and the plotting cells compute nothing that the extraction
  reads and are left out; among them is \<^verbatim>\<open>pixel_region = region.to_pixel(w.celestial)\<close>,
  whose result is only drawn.
\<close>

subsection \<open>Exceptions\<close>

datatype error =
    IndexError
  | Raised string

subsection \<open>Numbers\<close>

text \<open>
  A float that is a real number, or one of \<^verbatim>\<open>inf\<close>, \<^verbatim>\<open>-inf\<close> and \<^verbatim>\<open>nan\<close>. None of numpy's
  operations below raises. The square root of a negative number is \<^verbatim>\<open>nan\<close>. A product
  with a non-finite factor is non-finite. A real number over zero is \<^verbatim>\<open>inf\<close>, \<^verbatim>\<open>-inf\<close> or
  \<^verbatim>\<open>nan\<close>, and a non-finite value over a real number is non-finite again; the divisor of
  the notebook's one division is an element of the spectral axis, a real number.
\<close>

datatype npfloat = Finite real | NonFinite

definition np_sqrt :: "real \<Rightarrow> npfloat" where
  "np_sqrt x = (if x < 0 then NonFinite else Finite (sqrt x))"

fun np_multiply :: "npfloat \<Rightarrow> npfloat \<Rightarrow> npfloat" where
  "np_multiply (Finite a) (Finite b) = Finite (a * b)"
| "np_multiply _ _ = NonFinite"

fun np_divide :: "npfloat \<Rightarrow> real \<Rightarrow> npfloat" where
  "np_divide (Finite a) b = (if b = 0 then NonFinite else Finite (a / b))"
| "np_divide NonFinite b = NonFinite"

subsection \<open>The library objects the notebook handles\<close>

type_synonym astropy_unit = string

record 'a quantity =
  qvalue :: 'a
  qunit :: astropy_unit

datatype 'a nd_uncertainty =
    StdDevUncertainty 'a
  | VarianceUncertainty 'a
  | InverseVariance 'a

record 'a spectrum1d =
  flux :: "'a quantity"
  spectral_axis :: "real list quantity"
  uncertainty :: "'a nd_uncertainty option"

text \<open>\<^verbatim>\<open>pix_region\<close>, a \<^verbatim>\<open>CirclePixelRegion\<close>: \<^verbatim>\<open>center.x\<close>, \<^verbatim>\<open>center.y\<close>, \<^verbatim>\<open>radius\<close>.\<close>

record circle_pixel_region =
  center_x :: real
  center_y :: real
  pix_radius :: real

record 'sky circle_sky_region =
  center :: 'sky
  radius :: "npfloat quantity"

record 'sky sky_circular_aperture =
  positions :: 'sky
  r :: "npfloat quantity"

text \<open>
  \<^verbatim>\<open>w.celestial\<close>: the notebook reads its \<^verbatim>\<open>wcs.cdelt\<close> and hands the object to the
  library; \<open>projection\<close> stands for everything else in it.
\<close>

record 'p wcs_celestial =
  cdelt :: "real list"
  projection :: 'p

text \<open>
  What the \<^verbatim>\<open>with fits.open(filename)\<close> block binds: \<^verbatim>\<open>sci\<close> and \<^verbatim>\<open>err\<close>, each a
  sequence of image planes along the first (spectral) axis, and \<^verbatim>\<open>w\<close>, of which only
  \<^verbatim>\<open>w.celestial\<close> is ever used.
\<close>

record ('img, 'p) fits_data =
  sci :: "'img list"
  err :: "'img list"
  w_celestial :: "'p wcs_celestial"

datatype phot_method = Exact | Center | Subpixel

text \<open>
  Row 0 of the table \<^verbatim>\<open>aperture_photometry\<close> returns (the aperture has one position, so
  the table has one row).
\<close>

record 'v phot_table =
  aperture_sum :: 'v
  aperture_sum_err :: 'v

type_synonym ('p, 'sky) pixel_to_world =
  "'p wcs_celestial \<Rightarrow> real \<Rightarrow> real \<Rightarrow> error + 'sky"

type_synonym ('img, 'p, 'sky, 'v) aperture_photometry =
  "'img \<Rightarrow> 'sky sky_circular_aperture \<Rightarrow> 'p wcs_celestial \<Rightarrow> phot_method \<Rightarrow> 'img
    \<Rightarrow> error + 'v phot_table"

text \<open>
  What a constructor raises when asked for an object with these attributes: \<open>None\<close> when
  it accepts them, and the object it returns then holds them. (photutils refuses a radius
  that is not positive, specutils a spectral axis that does not fit the flux.)
\<close>

type_synonym 'sky circle_sky_region_init = "'sky circle_sky_region \<Rightarrow> error option"

type_synonym 'sky sky_circular_aperture_init = "'sky sky_circular_aperture \<Rightarrow> error option"

type_synonym 'v spectrum1d_init = "'v list spectrum1d \<Rightarrow> error option"

subsection \<open>Pixel region to sky region\<close>

text \<open>
  \<^verbatim>\<open>pixel_scale = np.sqrt(np.abs(np.prod(w.celestial.wcs.cdelt)))\<close>
\<close>

definition pixel_scale :: "'p wcs_celestial \<Rightarrow> npfloat" where
  "pixel_scale wc = np_sqrt \<bar>prod_list (cdelt wc)\<bar>"

text \<open>
  \<^verbatim>\<open>center = w.celestial.pixel_to_world(pix_region.center.x, pix_region.center.y)\<close>
  \<^verbatim>\<open>radius = pix_region.radius * pixel_scale * 3600 * u.arcsec\<close>
  \<^verbatim>\<open>region = CircleSkyRegion(center, radius)\<close>

  The centre and the radius, as the region asked of \<^verbatim>\<open>CircleSkyRegion\<close>; whether the
  constructor accepts it is asked where the notebook runs, in \<open>extract_spectrum\<close>.
\<close>

definition sky_region ::
  "('p, 'sky) pixel_to_world \<Rightarrow> 'p wcs_celestial \<Rightarrow> circle_pixel_region
    \<Rightarrow> error + 'sky circle_sky_region" where
  "sky_region ptw wc pix_region =
     (case ptw wc (center_x pix_region) (center_y pix_region) of
        Inl e \<Rightarrow> Inl e
      | Inr sky_center \<Rightarrow>
          Inr \<lparr>center = sky_center,
               radius =
                 \<lparr>qvalue =
                    np_multiply
                      (np_multiply (Finite (pix_radius pix_region)) (pixel_scale wc))
                      (Finite 3600),
                  qunit = ''arcsec''\<rparr>\<rparr>)"

text \<open>
  \<^verbatim>\<open>aperture = SkyCircularAperture(region.center, region.radius)\<close>, the aperture asked
  for.
\<close>

definition sky_aperture :: "'sky circle_sky_region \<Rightarrow> 'sky sky_circular_aperture" where
  "sky_aperture region = \<lparr>positions = center region, r = radius region\<rparr>"

subsection \<open>The photometry loop\<close>

text \<open>
  \<^verbatim>\<open>aperture_radius = aperture.r * wavelength / reference_wavelength\<close>
  \<^verbatim>\<open>aperture_cone = SkyCircularAperture(region.center, aperture_radius)\<close>

  Both wavelengths are elements of \<^verbatim>\<open>spec1d.spectral_axis\<close> and carry its unit, which
  cancels in the quotient: the result keeps the unit of \<^verbatim>\<open>aperture.r\<close>. The product is
  taken first, then the quotient. This is the aperture asked for; the loop asks the
  constructor whether it accepts it.
\<close>

definition aperture_cone ::
  "'sky circle_sky_region \<Rightarrow> 'sky sky_circular_aperture \<Rightarrow> real \<Rightarrow> real
    \<Rightarrow> 'sky sky_circular_aperture" where
  "aperture_cone region aperture wavelength reference_wavelength =
     (let aperture_radius =
            \<lparr>qvalue = np_divide (np_multiply (qvalue (r aperture)) (Finite wavelength))
                        reference_wavelength,
             qunit = qunit (r aperture)\<rparr>
      in \<lparr>positions = center region, r = aperture_radius\<rparr>)"

text \<open>
  The body of \<^verbatim>\<open>for wavelength, sci_slice, err_slice in zip(...)\<close>, run over the zipped
  triples that are left, with the two lists \<^verbatim>\<open>flux_sum\<close> and \<^verbatim>\<open>err_sum\<close> it appends to.
  An exception of \<^verbatim>\<open>SkyCircularAperture\<close> or of \<^verbatim>\<open>aperture_photometry\<close> ends the loop.
\<close>

fun photometry_loop ::
  "'sky sky_circular_aperture_init \<Rightarrow> ('img, 'p, 'sky, 'v) aperture_photometry
    \<Rightarrow> 'sky circle_sky_region \<Rightarrow> 'sky sky_circular_aperture \<Rightarrow> 'p wcs_celestial \<Rightarrow> real
    \<Rightarrow> (real \<times> 'img \<times> 'img) list \<Rightarrow> 'v list \<Rightarrow> 'v list
    \<Rightarrow> error + ('v list \<times> 'v list)" where
  "photometry_loop aperture_init phot region aperture wc reference_wavelength []
     flux_sum err_sum = Inr (flux_sum, err_sum)"
| "photometry_loop aperture_init phot region aperture wc reference_wavelength
     ((wavelength, sci_slice, err_slice) # rest) flux_sum err_sum =
     (case aperture_init (aperture_cone region aperture wavelength reference_wavelength) of
        Some e \<Rightarrow> Inl e
      | None \<Rightarrow>
     (case phot sci_slice (aperture_cone region aperture wavelength reference_wavelength)
             wc Exact err_slice of
        Inl e \<Rightarrow> Inl e
      | Inr phot_tab \<Rightarrow>
          photometry_loop aperture_init phot region aperture wc reference_wavelength rest
            (flux_sum @ [aperture_sum phot_tab]) (err_sum @ [aperture_sum_err phot_tab])))"

subsection \<open>The notebook, cell by cell\<close>

text \<open>
  \<^verbatim>\<open>flux = np.array(flux_sum) * spec1d.flux.unit\<close>
  \<^verbatim>\<open>uncertainty = StdDevUncertainty(np.array(err_sum))\<close>
  \<^verbatim>\<open>extracted_spec = Spectrum1D(flux=flux, spectral_axis=spec1d.spectral_axis,
                                 uncertainty=uncertainty)\<close>

  The spectrum asked of \<^verbatim>\<open>Spectrum1D\<close>.
\<close>

definition assembled_spec :: "'cube spectrum1d \<Rightarrow> 'v list \<Rightarrow> 'v list \<Rightarrow> 'v list spectrum1d" where
  "assembled_spec spec1d flux_sum err_sum =
     \<lparr>flux = \<lparr>qvalue = flux_sum, qunit = qunit (flux spec1d)\<rparr>,
      spectral_axis = spectral_axis spec1d,
      uncertainty = Some (StdDevUncertainty err_sum)\<rparr>"

text \<open>
  The cells in the order they run, each constructor asked as its line is reached.
  \<^verbatim>\<open>reference_wavelength = spec1d.spectral_axis[0]\<close> raises \<^verbatim>\<open>IndexError\<close> on an empty
  axis. \<^verbatim>\<open>zip\<close> stops at the shortest of its three arguments.
\<close>

definition extract_spectrum ::
  "('p, 'sky) pixel_to_world \<Rightarrow> 'sky circle_sky_region_init
    \<Rightarrow> 'sky sky_circular_aperture_init \<Rightarrow> ('img, 'p, 'sky, 'v) aperture_photometry
    \<Rightarrow> 'v spectrum1d_init
    \<Rightarrow> error + circle_pixel_region \<Rightarrow> error + ('img, 'p) fits_data
    \<Rightarrow> error + 'cube spectrum1d \<Rightarrow> error + 'v list spectrum1d" where
  "extract_spectrum ptw region_init aperture_init phot spectrum_init
     get_selection_definition fits_open spectrum1d_read =
     (case get_selection_definition of
        Inl e \<Rightarrow> Inl e
      | Inr pix_region \<Rightarrow>
     (case fits_open of
        Inl e \<Rightarrow> Inl e
      | Inr hdu \<Rightarrow>
     (case sky_region ptw (w_celestial hdu) pix_region of
        Inl e \<Rightarrow> Inl e
      | Inr region \<Rightarrow>
     (case region_init region of
        Some e \<Rightarrow> Inl e
      | None \<Rightarrow>
     (case aperture_init (sky_aperture region) of
        Some e \<Rightarrow> Inl e
      | None \<Rightarrow>
     (case spectrum1d_read of
        Inl e \<Rightarrow> Inl e
      | Inr spec1d \<Rightarrow>
     (case qvalue (spectral_axis spec1d) of
        [] \<Rightarrow> Inl IndexError
      | reference_wavelength # _ \<Rightarrow>
     (case photometry_loop aperture_init phot region (sky_aperture region) (w_celestial hdu)
             reference_wavelength
             (zip (qvalue (spectral_axis spec1d)) (zip (sci hdu) (err hdu))) [] [] of
        Inl e \<Rightarrow> Inl e
      | Inr (flux_sum, err_sum) \<Rightarrow>
     (case spectrum_init (assembled_spec spec1d flux_sum err_sum) of
        Some e \<Rightarrow> Inl e
      | None \<Rightarrow> Inr (assembled_spec spec1d flux_sum err_sum))))))))))"

subsection \<open>A small cube to run the notebook on\<close>

text \<open>
  Not from the notebook: stand-ins for the library and a cube with two image planes of
  one number each, on which the theorems below are instantiated. The stand-in for
  \<^verbatim>\<open>pixel_to_world\<close> returns the pixel position as the sky position; the one for
  \<^verbatim>\<open>aperture_photometry\<close> returns the plane times the aperture's radius as the sum and
  the error plane as the error, and raises unless the method is \<open>Exact\<close> and the radius
  a real number. The constructors of a region and of an aperture raise unless the radius
  is a positive real number; the one of a spectrum raises unless the spectral axis is as
  long as the flux or one entry longer.
\<close>

definition positive_radius :: "npfloat quantity \<Rightarrow> error option" where
  "positive_radius q =
     (case qvalue q of
        Finite arcsec \<Rightarrow> if 0 < arcsec then None else Some (Raised ''ValueError'')
      | NonFinite \<Rightarrow> Some (Raised ''ValueError''))"

definition example_region_init :: "(real \<times> real) circle_sky_region_init" where
  "example_region_init region = positive_radius (radius region)"

definition example_aperture_init :: "(real \<times> real) sky_circular_aperture_init" where
  "example_aperture_init aperture = positive_radius (r aperture)"

definition example_spectrum_init :: "real spectrum1d_init" where
  "example_spectrum_init spec =
     (if length (qvalue (spectral_axis spec)) = length (qvalue (flux spec)) \<or>
         length (qvalue (spectral_axis spec)) = length (qvalue (flux spec)) + 1
      then None else Some (Raised ''ValueError''))"

definition example_pixel_to_world :: "(unit, real \<times> real) pixel_to_world" where
  "example_pixel_to_world wc x y = Inr (x, y)"

definition example_photometry :: "(real, unit, real \<times> real, real) aperture_photometry" where
  "example_photometry sci_slice aperture wc how err_slice =
     (case (how, qvalue (r aperture)) of
        (Exact, Finite arcsec) \<Rightarrow>
          Inr \<lparr>aperture_sum = sci_slice * arcsec, aperture_sum_err = err_slice\<rparr>
      | _ \<Rightarrow> Inl (Raised ''ValueError''))"

definition example_selection :: circle_pixel_region where
  "example_selection = \<lparr>center_x = 3, center_y = 4, pix_radius = 5\<rparr>"

definition example_wcs :: "unit wcs_celestial" where
  "example_wcs = \<lparr>cdelt = [- 2, 2], projection = ()\<rparr>"

definition example_fits :: "(real, unit) fits_data" where
  "example_fits = \<lparr>sci = [1, 10], err = [2, 3], w_celestial = example_wcs\<rparr>"

text \<open>The cube read as a spectrum, with the wavelengths given.\<close>

definition example_spec1d :: "real list \<Rightarrow> unit spectrum1d" where
  "example_spec1d wavelengths =
     \<lparr>flux = \<lparr>qvalue = (), qunit = ''MJy / sr''\<rparr>,
      spectral_axis = \<lparr>qvalue = wavelengths, qunit = ''um''\<rparr>,
      uncertainty = None\<rparr>"

section \<open>Properties\<close>

subsection \<open>The loop and the run, characterised\<close>


lemma photometry_loop_Inr:
  "photometry_loop aperture_init phot region ap wc ref zs fs es = Inr (fs', es') \<Longrightarrow>
   \<exists>tabs. list_all2 (\<lambda>(wavelength, sci_slice, err_slice) tab.
       aperture_init (aperture_cone region ap wavelength ref) = None \<and>
       phot sci_slice (aperture_cone region ap wavelength ref) wc Exact err_slice = Inr tab)
       zs tabs \<and>
     fs' = fs @ map aperture_sum tabs \<and> es' = es @ map aperture_sum_err tabs"
proof (induction zs arbitrary: fs es)
  case Nil
  then show ?case by simp
next
  case (Cons z zs)
  obtain wl sl el where z: "z = (wl, sl, el)" by (cases z) auto
  from Cons.prems obtain tab where
    accepted: "aperture_init (aperture_cone region ap wl ref) = None"
    and first: "phot sl (aperture_cone region ap wl ref) wc Exact el = Inr tab"
    and others: "photometry_loop aperture_init phot region ap wc ref zs
       (fs @ [aperture_sum tab]) (es @ [aperture_sum_err tab]) = Inr (fs', es')"
    by (auto simp: z split: option.splits sum.splits)
  from Cons.IH[OF others] obtain tabs where
    "list_all2 (\<lambda>(wavelength, sci_slice, err_slice) tab.
       aperture_init (aperture_cone region ap wavelength ref) = None \<and>
       phot sci_slice (aperture_cone region ap wavelength ref) wc Exact err_slice = Inr tab)
       zs tabs"
    "fs' = (fs @ [aperture_sum tab]) @ map aperture_sum tabs"
    "es' = (es @ [aperture_sum_err tab]) @ map aperture_sum_err tabs"
    by blast
  then show ?case using accepted first
    by (intro exI[of _ "tab # tabs"]) (simp add: z)
qed


text \<open>
  A run that returns on three inputs that arrived has passed every line:
  \<^verbatim>\<open>pixel_to_world\<close> returned, the constructors accepted the region and the aperture, the
  spectral axis was not empty, the loop returned and \<^verbatim>\<open>Spectrum1D\<close> accepted the spectrum
  it was asked for, which is the result.
\<close>

lemma extract_spectrum_Inr:
  assumes "extract_spectrum ptw region_init aperture_init phot spectrum_init
      (Inr p) (Inr h) (Inr s) = Inr out"
  shows "\<exists>region ref others tabs.
      sky_region ptw (w_celestial h) p = Inr region \<and>
      region_init region = None \<and>
      aperture_init (sky_aperture region) = None \<and>
      qvalue (spectral_axis s) = ref # others \<and>
      list_all2 (\<lambda>(wavelength, sci_slice, err_slice) tab.
          aperture_init (aperture_cone region (sky_aperture region) wavelength ref) = None \<and>
          phot sci_slice (aperture_cone region (sky_aperture region) wavelength ref)
            (w_celestial h) Exact err_slice = Inr tab)
        (zip (qvalue (spectral_axis s)) (zip (sci h) (err h))) tabs \<and>
      out = \<lparr>flux = \<lparr>qvalue = map aperture_sum tabs, qunit = qunit (flux s)\<rparr>,
             spectral_axis = spectral_axis s,
             uncertainty = Some (StdDevUncertainty (map aperture_sum_err tabs))\<rparr> \<and>
      spectrum_init out = None"
proof -
  from assms obtain region where reg: "sky_region ptw (w_celestial h) p = Inr region"
    by (auto simp: extract_spectrum_def split: sum.splits)
  from assms reg have ctor: "region_init region = None" "aperture_init (sky_aperture region) = None"
    by (auto simp: extract_spectrum_def split: option.splits)
  from assms reg ctor obtain ref others where ax: "qvalue (spectral_axis s) = ref # others"
    by (auto simp: extract_spectrum_def split: list.splits)
  from assms reg ctor ax obtain fs es where
    lp: "photometry_loop aperture_init phot region (sky_aperture region) (w_celestial h) ref
           (zip (qvalue (spectral_axis s)) (zip (sci h) (err h))) [] [] = Inr (fs, es)"
    by (auto simp: extract_spectrum_def split: sum.splits)
  from assms reg ctor ax lp have
    out: "out = \<lparr>flux = \<lparr>qvalue = fs, qunit = qunit (flux s)\<rparr>,
             spectral_axis = spectral_axis s,
             uncertainty = Some (StdDevUncertainty es)\<rparr>"
    and acc: "spectrum_init out = None"
    by (auto simp: extract_spectrum_def assembled_spec_def split: option.splits)
  from photometry_loop_Inr[OF lp] reg ctor ax out acc show ?thesis by auto
qed

lemma extract_spectrum_length:
  assumes "extract_spectrum ptw region_init aperture_init phot spectrum_init
      (Inr p) (Inr h) (Inr s) = Inr out"
  shows "length (qvalue (flux out)) =
      min (length (qvalue (spectral_axis s))) (min (length (sci h)) (length (err h)))"
    and "\<exists>es. uncertainty out = Some (StdDevUncertainty es) \<and>
      length es = min (length (qvalue (spectral_axis s))) (min (length (sci h)) (length (err h)))"
proof -
  from extract_spectrum_Inr[OF assms] obtain region ref others tabs where
    rows: "list_all2 (\<lambda>(wavelength, sci_slice, err_slice) tab.
          aperture_init (aperture_cone region (sky_aperture region) wavelength ref) = None \<and>
          phot sci_slice (aperture_cone region (sky_aperture region) wavelength ref)
            (w_celestial h) Exact err_slice = Inr tab)
        (zip (qvalue (spectral_axis s)) (zip (sci h) (err h))) tabs"
    and out: "out = \<lparr>flux = \<lparr>qvalue = map aperture_sum tabs, qunit = qunit (flux s)\<rparr>,
         spectral_axis = spectral_axis s,
         uncertainty = Some (StdDevUncertainty (map aperture_sum_err tabs))\<rparr>"
    by blast
  have len: "length (zip (qvalue (spectral_axis s)) (zip (sci h) (err h))) = length tabs"
    using rows by (rule list_all2_lengthD)
  show "length (qvalue (flux out)) =
      min (length (qvalue (spectral_axis s))) (min (length (sci h)) (length (err h)))"
    using len out by simp
  show "\<exists>es. uncertainty out = Some (StdDevUncertainty es) \<and>
      length es = min (length (qvalue (spectral_axis s))) (min (length (sci h)) (length (err h)))"
    using len out by simp
qed

text \<open>Entry \<open>i\<close> of the result comes from plane \<open>i\<close>, error plane \<open>i\<close> and wavelength \<open>i\<close>.\<close>

lemma extract_spectrum_nth:
  assumes "extract_spectrum ptw region_init aperture_init phot spectrum_init
      (Inr p) (Inr h) (Inr s) = Inr out"
    and "i < length (qvalue (flux out))"
  shows "\<exists>region tab es.
      sky_region ptw (w_celestial h) p = Inr region \<and>
      i < length (qvalue (spectral_axis s)) \<and> i < length (sci h) \<and> i < length (err h) \<and>
      aperture_init
        (aperture_cone region (sky_aperture region)
           (qvalue (spectral_axis s) ! i) (qvalue (spectral_axis s) ! 0)) = None \<and>
      phot (sci h ! i)
        (aperture_cone region (sky_aperture region)
           (qvalue (spectral_axis s) ! i) (qvalue (spectral_axis s) ! 0))
        (w_celestial h) Exact (err h ! i) = Inr tab \<and>
      qvalue (flux out) ! i = aperture_sum tab \<and>
      uncertainty out = Some (StdDevUncertainty es) \<and>
      i < length es \<and> es ! i = aperture_sum_err tab"
proof -
  let ?axis = "qvalue (spectral_axis s)"
  let ?zs = "zip ?axis (zip (sci h) (err h))"
  from extract_spectrum_Inr[OF assms(1)] obtain region ref others tabs where
    reg: "sky_region ptw (w_celestial h) p = Inr region"
    and ax: "?axis = ref # others"
    and rows: "list_all2 (\<lambda>(wavelength, sci_slice, err_slice) tab.
          aperture_init (aperture_cone region (sky_aperture region) wavelength ref) = None \<and>
          phot sci_slice (aperture_cone region (sky_aperture region) wavelength ref)
            (w_celestial h) Exact err_slice = Inr tab) ?zs tabs"
    and out: "out = \<lparr>flux = \<lparr>qvalue = map aperture_sum tabs, qunit = qunit (flux s)\<rparr>,
         spectral_axis = spectral_axis s,
         uncertainty = Some (StdDevUncertainty (map aperture_sum_err tabs))\<rparr>"
    by blast
  have ref: "?axis ! 0 = ref" using ax by simp
  have len: "length ?zs = length tabs" using rows by (rule list_all2_lengthD)
  have i_tabs: "i < length tabs" using assms(2) out by simp
  then have i_zs: "i < length ?zs" using len by simp
  then have bounds: "i < length ?axis" "i < length (sci h)" "i < length (err h)"
    by simp_all
  have "(\<lambda>(wavelength, sci_slice, err_slice) tab.
          aperture_init (aperture_cone region (sky_aperture region) wavelength ref) = None \<and>
          phot sci_slice (aperture_cone region (sky_aperture region) wavelength ref)
            (w_celestial h) Exact err_slice = Inr tab) (?zs ! i) (tabs ! i)"
    using rows i_zs by (rule list_all2_nthD)
  then have call: "aperture_init
      (aperture_cone region (sky_aperture region) (?axis ! i) (?axis ! 0)) = None"
    "phot (sci h ! i)
      (aperture_cone region (sky_aperture region) (?axis ! i) (?axis ! 0))
      (w_celestial h) Exact (err h ! i) = Inr (tabs ! i)"
    using i_zs ref by simp_all
  have vals: "qvalue (flux out) ! i = aperture_sum (tabs ! i)"
    "uncertainty out = Some (StdDevUncertainty (map aperture_sum_err tabs))"
    "i < length (map aperture_sum_err tabs)"
    "map aperture_sum_err tabs ! i = aperture_sum_err (tabs ! i)"
    using out i_tabs by simp_all
  with reg bounds call show ?thesis by blast
qed

text \<open>The square root is never taken of a negative number.\<close>

lemma pixel_scale_finite: "pixel_scale wc = Finite (sqrt \<bar>prod_list (cdelt wc)\<bar>)"
  by (simp add: pixel_scale_def np_sqrt_def)

lemma sky_region_Inr:
  "sky_region ptw wc p = Inr region \<Longrightarrow>
   ptw wc (center_x p) (center_y p) = Inr (center region) \<and>
   radius region =
     \<lparr>qvalue = Finite (pix_radius p * sqrt \<bar>prod_list (cdelt wc)\<bar> * 3600),
      qunit = ''arcsec''\<rparr>"
  by (auto simp: sky_region_def pixel_scale_finite split: sum.splits)

lemma sky_aperture_sel:
  "positions (sky_aperture region) = center region" "r (sky_aperture region) = radius region"
  by (simp_all add: sky_aperture_def)

lemma aperture_cone_radius:
  "qvalue (radius region) = Finite arcsec \<Longrightarrow>
   aperture_cone region (sky_aperture region) wavelength ref =
     \<lparr>positions = center region,
      r = \<lparr>qvalue = (if ref = 0 then NonFinite else Finite (arcsec * (wavelength / ref))),
           qunit = qunit (radius region)\<rparr>\<rparr>"
  by (simp add: aperture_cone_def sky_aperture_def)

subsection \<open>The example, run\<close>

lemmas example_defs = example_pixel_to_world_def example_photometry_def example_selection_def
  example_wcs_def example_fits_def example_spec1d_def example_region_init_def
  example_aperture_init_def example_spectrum_init_def positive_radius_def

lemmas notebook_defs = extract_spectrum_def assembled_spec_def sky_region_def pixel_scale_def
  np_sqrt_def sky_aperture_def aperture_cone_def

text \<open>
  The pixel scale is \<open>sqrt \<bar>- 2 * 2\<bar> = 2\<close> and the sky radius \<open>5 * 2 * 3600 = 36000\<close>
  arcseconds. The radius of the second slice is \<open>36000 * 2 / 1\<close>. Every constructor
  accepts. With three wavelengths the loop stops after the two planes, and the spectrum
  of two fluxes beside three wavelengths is accepted.
\<close>

lemma example_region:
  "sky_region example_pixel_to_world (w_celestial example_fits) example_selection =
     Inr \<lparr>center = (3, 4), radius = \<lparr>qvalue = Finite 36000, qunit = ''arcsec''\<rparr>\<rparr>"
  by (simp add: example_defs notebook_defs)


lemma example_run:
  "extract_spectrum example_pixel_to_world example_region_init example_aperture_init
     example_photometry example_spectrum_init (Inr example_selection)
     (Inr example_fits) (Inr (example_spec1d [1, 2])) =
   Inr \<lparr>flux = \<lparr>qvalue = [36000, 720000], qunit = ''MJy / sr''\<rparr>,
        spectral_axis = \<lparr>qvalue = [1, 2], qunit = ''um''\<rparr>,
        uncertainty = Some (StdDevUncertainty [2, 3])\<rparr>"
  by (simp add: example_defs notebook_defs)

lemma example_run_long_axis:
  "extract_spectrum example_pixel_to_world example_region_init example_aperture_init
     example_photometry example_spectrum_init (Inr example_selection)
     (Inr example_fits) (Inr (example_spec1d [1, 2, 4])) =
   Inr \<lparr>flux = \<lparr>qvalue = [36000, 720000], qunit = ''MJy / sr''\<rparr>,
        spectral_axis = \<lparr>qvalue = [1, 2, 4], qunit = ''um''\<rparr>,
        uncertainty = Some (StdDevUncertainty [2, 3])\<rparr>"
  by (simp add: example_defs notebook_defs)

subsection \<open>The region conversion\<close>

text \<open>
  C4. The pixel region becomes a sky region whose centre is what \<^verbatim>\<open>pixel_to_world\<close> of
  the celestial WCS returns for the pixel centre \<open>(x, y)\<close>, and whose radius, in
  arcseconds, is the pixel radius times \<open>sqrt \<bar>prod cdelt\<bar>\<close> times 3600. For the two
  scales \<open>a\<close>, \<open>b\<close> of a celestial WCS that square root is the geometric mean of
  \<open>\<bar>a\<bar>\<close> and \<open>\<bar>b\<bar>\<close>.
\<close>

theorem sky_region_conversion:
  assumes "ptw wc (center_x pix_region) (center_y pix_region) = Inr sky_center"
  shows "\<exists>region. sky_region ptw wc pix_region = Inr region \<and>
      center region = sky_center \<and>
      qvalue (radius region) =
        Finite (pix_radius pix_region * sqrt \<bar>prod_list (cdelt wc)\<bar> * 3600) \<and>
      qunit (radius region) = ''arcsec'' \<and>
      (\<forall>a b. cdelt wc = [a, b] \<longrightarrow>
         qvalue (radius region) =
           Finite (pix_radius pix_region * sqrt (\<bar>a\<bar> * \<bar>b\<bar>) * 3600))"
  using assms by (simp add: sky_region_def pixel_scale_finite abs_mult)

theorem sky_region_conversion_witness:
  "\<exists>region.
     sky_region example_pixel_to_world example_wcs example_selection = Inr region \<and>
     center region = (3, 4) \<and>
     radius region = \<lparr>qvalue = Finite 36000, qunit = ''arcsec''\<rparr> \<and>
     qvalue (radius region) = Finite (5 * sqrt (\<bar>- 2\<bar> * \<bar>2\<bar>) * 3600)"
  using sky_region_conversion[of example_pixel_to_world example_wcs example_selection "(3, 4)"]
  by (auto simp: example_pixel_to_world_def example_wcs_def example_selection_def)

text \<open>
  C10. The radius conversion cannot leave the domain of the square root: its argument is
  an absolute value, hence nonnegative for every \<open>cdelt\<close>, negative entries included. So
  the pixel scale is never \<^verbatim>\<open>nan\<close>: it is the nonnegative real root of \<open>\<bar>prod cdelt\<bar>\<close>. The
  conversion returns whenever \<^verbatim>\<open>pixel_to_world\<close> does, its radius is a real number, and a
  nonnegative pixel radius gives a nonnegative sky radius.
\<close>

theorem pixel_scale_sign_safe:
  "0 \<le> \<bar>prod_list (cdelt wc)\<bar> \<and>
   pixel_scale wc = Finite (sqrt \<bar>prod_list (cdelt wc)\<bar>) \<and>
   0 \<le> sqrt \<bar>prod_list (cdelt wc)\<bar> \<and>
   (sqrt \<bar>prod_list (cdelt wc)\<bar>)\<^sup>2 = \<bar>prod_list (cdelt wc)\<bar> \<and>
   (\<forall>sky_center. ptw wc (center_x pix_region) (center_y pix_region) = Inr sky_center \<longrightarrow>
      (\<exists>region arcsec. sky_region ptw wc pix_region = Inr region \<and>
         qvalue (radius region) = Finite arcsec \<and>
         (0 \<le> pix_radius pix_region \<longrightarrow> 0 \<le> arcsec)))"
  by (auto simp: pixel_scale_finite sky_region_def)

theorem pixel_scale_sign_safe_witness:
  "pixel_scale example_wcs = Finite 2 \<and>
   2\<^sup>2 = \<bar>prod_list [- 2, 2 :: real]\<bar> \<and>
   0 \<le> pix_radius example_selection \<and>
   (\<exists>region arcsec.
      sky_region example_pixel_to_world example_wcs example_selection = Inr region \<and>
      qvalue (radius region) = Finite arcsec \<and> 0 \<le> arcsec)"
  using pixel_scale_sign_safe[of example_wcs example_pixel_to_world example_selection]
  by (simp add: example_pixel_to_world_def example_wcs_def example_selection_def)

subsection \<open>The aperture of every slice\<close>

text \<open>
  C1. In a run that returns, the photometry of slice \<open>i\<close> is done in the aperture
  \<^verbatim>\<open>aperture_cone\<close> centred on the region's centre, whose radius is the radius of the
  selected sky aperture (\<^verbatim>\<open>aperture.r\<close>) times \<open>spectral_axis[i] / spectral_axis[0]\<close>, in
  arcseconds. The slices are the ones the loop reaches, \<open>i\<close> below the number of fluxes.
  For a reference wavelength of zero the quotient, and with it the radius, is not a real
  number but one of numpy's non-finite values.
\<close>

theorem aperture_radius_scales_with_wavelength:
  assumes "extract_spectrum ptw region_init aperture_init phot spectrum_init
      (Inr pix_region) (Inr hdu) (Inr spec1d) = Inr extracted_spec"
    and "i < length (qvalue (flux extracted_spec))"
  shows "\<exists>region arcsec cone tab.
      sky_region ptw (w_celestial hdu) pix_region = Inr region \<and>
      i < length (qvalue (spectral_axis spec1d)) \<and>
      i < length (sci hdu) \<and> i < length (err hdu) \<and>
      cone = aperture_cone region (sky_aperture region)
               (qvalue (spectral_axis spec1d) ! i) (qvalue (spectral_axis spec1d) ! 0) \<and>
      positions cone = center region \<and>
      qvalue (r (sky_aperture region)) = Finite arcsec \<and>
      qvalue (r cone) =
        (if qvalue (spectral_axis spec1d) ! 0 = 0 then NonFinite
         else Finite (arcsec *
                (qvalue (spectral_axis spec1d) ! i / qvalue (spectral_axis spec1d) ! 0))) \<and>
      qunit (r cone) = ''arcsec'' \<and>
      phot (sci hdu ! i) cone (w_celestial hdu) Exact (err hdu ! i) = Inr tab \<and>
      qvalue (flux extracted_spec) ! i = aperture_sum tab"
proof -
  from extract_spectrum_nth[OF assms(1,2)] obtain region tab where
    reg: "sky_region ptw (w_celestial hdu) pix_region = Inr region"
    and bounds: "i < length (qvalue (spectral_axis spec1d))" "i < length (sci hdu)"
      "i < length (err hdu)"
    and call: "phot (sci hdu ! i)
        (aperture_cone region (sky_aperture region)
           (qvalue (spectral_axis spec1d) ! i) (qvalue (spectral_axis spec1d) ! 0))
        (w_celestial hdu) Exact (err hdu ! i) = Inr tab"
    and val: "qvalue (flux extracted_spec) ! i = aperture_sum tab"
    by blast
  from sky_region_Inr[OF reg] obtain arcsec where
    rad: "qvalue (radius region) = Finite arcsec" and unit: "qunit (radius region) = ''arcsec''"
    by simp
  show ?thesis
    using reg bounds call rad unit val
    by (auto simp: aperture_cone_radius[OF rad] sky_aperture_sel)
qed

theorem aperture_radius_scales_with_wavelength_witness:
  "extract_spectrum example_pixel_to_world example_region_init example_aperture_init
     example_photometry example_spectrum_init (Inr example_selection)
     (Inr example_fits) (Inr (example_spec1d [1, 2])) =
   Inr \<lparr>flux = \<lparr>qvalue = [36000, 720000], qunit = ''MJy / sr''\<rparr>,
        spectral_axis = \<lparr>qvalue = [1, 2], qunit = ''um''\<rparr>,
        uncertainty = Some (StdDevUncertainty [2, 3])\<rparr> \<and>
   (\<exists>region cone tab.
      sky_region example_pixel_to_world example_wcs example_selection = Inr region \<and>
      qvalue (r (sky_aperture region)) = Finite 36000 \<and>
      cone = aperture_cone region (sky_aperture region) 2 1 \<and>
      qvalue (r cone) = Finite (36000 * (2 / 1)) \<and>
      qunit (r cone) = ''arcsec'' \<and>
      example_photometry 10 cone example_wcs Exact 3 = Inr tab \<and>
      aperture_sum tab = 720000)"
proof -
  have i: "1 < length (qvalue (flux
      \<lparr>flux = \<lparr>qvalue = [36000, 720000 :: real], qunit = ''MJy / sr''\<rparr>,
       spectral_axis = \<lparr>qvalue = [1, 2], qunit = ''um''\<rparr>,
       uncertainty = Some (StdDevUncertainty [2, 3])\<rparr>))"
    by simp
  from aperture_radius_scales_with_wavelength[OF example_run i] example_run show ?thesis
    by (auto simp: example_fits_def example_spec1d_def sky_region_def example_pixel_to_world_def
        example_selection_def pixel_scale_def np_sqrt_def example_wcs_def sky_aperture_def)
qed

subsection \<open>One row of photometry per slice\<close>

text \<open>
  C2. In a run that returns, \<^verbatim>\<open>aperture_photometry\<close> has returned one row for every
  slice of the loop, each called with the slice's science plane, the wavelength-scaled
  aperture of that slice (which \<^verbatim>\<open>SkyCircularAperture\<close> accepted), the celestial WCS, the
  method \<open>Exact\<close> and the slice's error plane. The fluxes of the result are the rows'
  \<^verbatim>\<open>aperture_sum\<close> and its uncertainties the rows' \<^verbatim>\<open>aperture_sum_err\<close>, one pair per
  slice, in the order of the slices. A slice is one triple of the \<^verbatim>\<open>zip\<close>. The example
  is such a run: two slices, two pairs.
\<close>

theorem one_photometry_row_per_slice:
  assumes "extract_spectrum ptw region_init aperture_init phot spectrum_init
      (Inr pix_region) (Inr hdu) (Inr spec1d) = Inr extracted_spec"
  shows "\<exists>region tabs.
      sky_region ptw (w_celestial hdu) pix_region = Inr region \<and>
      qvalue (spectral_axis spec1d) \<noteq> [] \<and>
      list_all2 (\<lambda>(wavelength, sci_slice, err_slice) tab.
          aperture_init
            (aperture_cone region (sky_aperture region) wavelength
               (qvalue (spectral_axis spec1d) ! 0)) = None \<and>
          phot sci_slice
            (aperture_cone region (sky_aperture region) wavelength
               (qvalue (spectral_axis spec1d) ! 0))
            (w_celestial hdu) Exact err_slice = Inr tab)
        (zip (qvalue (spectral_axis spec1d)) (zip (sci hdu) (err hdu))) tabs \<and>
      qvalue (flux extracted_spec) = map aperture_sum tabs \<and>
      uncertainty extracted_spec = Some (StdDevUncertainty (map aperture_sum_err tabs))"
proof -
  from extract_spectrum_Inr[OF assms] obtain region ref others tabs where
    reg: "sky_region ptw (w_celestial hdu) pix_region = Inr region"
    and ax: "qvalue (spectral_axis spec1d) = ref # others"
    and rows: "list_all2 (\<lambda>(wavelength, sci_slice, err_slice) tab.
          aperture_init (aperture_cone region (sky_aperture region) wavelength ref) = None \<and>
          phot sci_slice (aperture_cone region (sky_aperture region) wavelength ref)
            (w_celestial hdu) Exact err_slice = Inr tab)
        (zip (qvalue (spectral_axis spec1d)) (zip (sci hdu) (err hdu))) tabs"
    and out: "extracted_spec =
        \<lparr>flux = \<lparr>qvalue = map aperture_sum tabs, qunit = qunit (flux spec1d)\<rparr>,
         spectral_axis = spectral_axis spec1d,
         uncertainty = Some (StdDevUncertainty (map aperture_sum_err tabs))\<rparr>"
    by blast
  have "qvalue (spectral_axis spec1d) ! 0 = ref" using ax by simp
  with reg ax rows out show ?thesis by auto
qed

theorem one_photometry_row_per_slice_witness:
  "extract_spectrum example_pixel_to_world example_region_init example_aperture_init
     example_photometry example_spectrum_init (Inr example_selection)
     (Inr example_fits) (Inr (example_spec1d [1, 2])) =
   Inr \<lparr>flux = \<lparr>qvalue = [36000, 720000], qunit = ''MJy / sr''\<rparr>,
        spectral_axis = \<lparr>qvalue = [1, 2], qunit = ''um''\<rparr>,
        uncertainty = Some (StdDevUncertainty [2, 3])\<rparr> \<and>
   (\<exists>region tabs.
      sky_region example_pixel_to_world example_wcs example_selection = Inr region \<and>
      list_all2 (\<lambda>(wavelength, sci_slice, err_slice) tab.
          example_aperture_init
            (aperture_cone region (sky_aperture region) wavelength 1) = None \<and>
          example_photometry sci_slice
            (aperture_cone region (sky_aperture region) wavelength 1)
            example_wcs Exact err_slice = Inr tab)
        [(1, 1, 2), (2, 10, 3)] tabs \<and>
      [36000, 720000] = map aperture_sum tabs \<and>
      [2, 3] = map aperture_sum_err tabs)"
  using one_photometry_row_per_slice[OF example_run] example_run
  by (simp add: example_fits_def example_spec1d_def)

subsection \<open>The wavelength axis\<close>

text \<open>
  C6. The spectral axis of the extracted spectrum is the spectral axis of the cube that
  was read, values and unit. Every flux of the result is the sum over plane \<open>i\<close> in the
  aperture scaled by wavelength \<open>i\<close> of that same axis, so flux \<open>i\<close> stands next to the
  wavelength of the slice it was computed from.
\<close>

theorem spectral_axis_unchanged:
  assumes "extract_spectrum ptw region_init aperture_init phot spectrum_init
      (Inr pix_region) (Inr hdu) (Inr spec1d) = Inr extracted_spec"
  shows "spectral_axis extracted_spec = spectral_axis spec1d \<and>
     (\<exists>region. sky_region ptw (w_celestial hdu) pix_region = Inr region \<and>
        (\<forall>i < length (qvalue (flux extracted_spec)).
           i < length (qvalue (spectral_axis extracted_spec)) \<and>
           (\<exists>tab. phot (sci hdu ! i)
                    (aperture_cone region (sky_aperture region)
                       (qvalue (spectral_axis extracted_spec) ! i)
                       (qvalue (spectral_axis extracted_spec) ! 0))
                    (w_celestial hdu) Exact (err hdu ! i) = Inr tab \<and>
                  qvalue (flux extracted_spec) ! i = aperture_sum tab)))"
proof -
  from extract_spectrum_Inr[OF assms] obtain region where
    reg: "sky_region ptw (w_celestial hdu) pix_region = Inr region"
    and same: "spectral_axis extracted_spec = spectral_axis spec1d"
    by auto
  have "i < length (qvalue (spectral_axis extracted_spec)) \<and>
      (\<exists>tab. phot (sci hdu ! i)
               (aperture_cone region (sky_aperture region)
                  (qvalue (spectral_axis extracted_spec) ! i)
                  (qvalue (spectral_axis extracted_spec) ! 0))
               (w_celestial hdu) Exact (err hdu ! i) = Inr tab \<and>
             qvalue (flux extracted_spec) ! i = aperture_sum tab)"
    if "i < length (qvalue (flux extracted_spec))" for i
    using extract_spectrum_nth[OF assms that] reg same by auto
  with reg same show ?thesis by blast
qed

theorem spectral_axis_unchanged_witness:
  "extract_spectrum example_pixel_to_world example_region_init example_aperture_init
     example_photometry example_spectrum_init (Inr example_selection)
     (Inr example_fits) (Inr (example_spec1d [1, 2])) =
   Inr \<lparr>flux = \<lparr>qvalue = [36000, 720000], qunit = ''MJy / sr''\<rparr>,
        spectral_axis = \<lparr>qvalue = [1, 2], qunit = ''um''\<rparr>,
        uncertainty = Some (StdDevUncertainty [2, 3])\<rparr> \<and>
   spectral_axis
     \<lparr>flux = \<lparr>qvalue = [36000, 720000 :: real], qunit = ''MJy / sr''\<rparr>,
      spectral_axis = \<lparr>qvalue = [1, 2], qunit = ''um''\<rparr>,
      uncertainty = Some (StdDevUncertainty [2, 3])\<rparr> =
   spectral_axis (example_spec1d [1, 2]) \<and>
   (\<exists>region tab.
      sky_region example_pixel_to_world example_wcs example_selection = Inr region \<and>
      example_photometry 10 (aperture_cone region (sky_aperture region) 2 1) example_wcs
        Exact 3 = Inr tab \<and>
      720000 = aperture_sum tab)"
proof -
  note inst = spectral_axis_unchanged[OF example_run]
  from inst obtain region where
    reg: "sky_region example_pixel_to_world (w_celestial example_fits) example_selection =
      Inr region"
    and each: "\<forall>i < 2. \<exists>tab. example_photometry (sci example_fits ! i)
        (aperture_cone region (sky_aperture region) ([1, 2] ! i) ([1, 2] ! 0))
        (w_celestial example_fits) Exact (err example_fits ! i) = Inr tab \<and>
        [36000, 720000] ! i = aperture_sum tab"
    by auto
  from each[rule_format, of 1] reg inst example_run show ?thesis
    by (auto simp: example_fits_def)
qed

subsection \<open>Units and the kind of uncertainty\<close>

text \<open>
  C9. The flux of the extracted spectrum is the list of aperture sums with the unit of
  the flux of the cube that was read (\<^verbatim>\<open>spec1d.flux.unit\<close>), and its uncertainty is a
  \<^verbatim>\<open>StdDevUncertainty\<close> holding the \<^verbatim>\<open>aperture_sum_err\<close> of the same rows. The example is
  such a run: its flux carries the unit of the cube, and its uncertainty is the
  \<^verbatim>\<open>StdDevUncertainty\<close> of the two error planes.
\<close>

theorem flux_unit_and_stddev_uncertainty:
  assumes "extract_spectrum ptw region_init aperture_init phot spectrum_init
      (Inr pix_region) (Inr hdu) (Inr spec1d) = Inr extracted_spec"
  shows "qunit (flux extracted_spec) = qunit (flux spec1d) \<and>
     (\<exists>region tabs.
        sky_region ptw (w_celestial hdu) pix_region = Inr region \<and>
        list_all2 (\<lambda>(wavelength, sci_slice, err_slice) tab.
            phot sci_slice
              (aperture_cone region (sky_aperture region) wavelength
                 (qvalue (spectral_axis spec1d) ! 0))
              (w_celestial hdu) Exact err_slice = Inr tab)
          (zip (qvalue (spectral_axis spec1d)) (zip (sci hdu) (err hdu))) tabs \<and>
        flux extracted_spec =
          \<lparr>qvalue = map aperture_sum tabs, qunit = qunit (flux spec1d)\<rparr> \<and>
        uncertainty extracted_spec = Some (StdDevUncertainty (map aperture_sum_err tabs)))"
proof -
  from extract_spectrum_Inr[OF assms] obtain region ref others tabs where
    reg: "sky_region ptw (w_celestial hdu) pix_region = Inr region"
    and ax: "qvalue (spectral_axis spec1d) = ref # others"
    and rows: "list_all2 (\<lambda>(wavelength, sci_slice, err_slice) tab.
          aperture_init (aperture_cone region (sky_aperture region) wavelength ref) = None \<and>
          phot sci_slice (aperture_cone region (sky_aperture region) wavelength ref)
            (w_celestial hdu) Exact err_slice = Inr tab)
        (zip (qvalue (spectral_axis spec1d)) (zip (sci hdu) (err hdu))) tabs"
    and out: "extracted_spec =
        \<lparr>flux = \<lparr>qvalue = map aperture_sum tabs, qunit = qunit (flux spec1d)\<rparr>,
         spectral_axis = spectral_axis spec1d,
         uncertainty = Some (StdDevUncertainty (map aperture_sum_err tabs))\<rparr>"
    by blast
  have ref: "qvalue (spectral_axis spec1d) ! 0 = ref" using ax by simp
  have "list_all2 (\<lambda>(wavelength, sci_slice, err_slice) tab.
          phot sci_slice (aperture_cone region (sky_aperture region) wavelength ref)
            (w_celestial hdu) Exact err_slice = Inr tab)
        (zip (qvalue (spectral_axis spec1d)) (zip (sci hdu) (err hdu))) tabs"
    using rows by (rule list_all2_mono) auto
  with reg out ref show ?thesis by auto
qed

theorem flux_unit_and_stddev_uncertainty_witness:
  "extract_spectrum example_pixel_to_world example_region_init example_aperture_init
     example_photometry example_spectrum_init (Inr example_selection)
     (Inr example_fits) (Inr (example_spec1d [1, 2])) =
   Inr \<lparr>flux = \<lparr>qvalue = [36000, 720000], qunit = ''MJy / sr''\<rparr>,
        spectral_axis = \<lparr>qvalue = [1, 2], qunit = ''um''\<rparr>,
        uncertainty = Some (StdDevUncertainty [2, 3])\<rparr> \<and>
   ''MJy / sr'' = qunit (flux (example_spec1d [1, 2])) \<and>
   (\<exists>region tabs.
      sky_region example_pixel_to_world example_wcs example_selection = Inr region \<and>
      list_all2 (\<lambda>(wavelength, sci_slice, err_slice) tab.
          example_photometry sci_slice
            (aperture_cone region (sky_aperture region) wavelength 1)
            example_wcs Exact err_slice = Inr tab)
        [(1, 1, 2), (2, 10, 3)] tabs \<and>
      \<lparr>qvalue = [36000, 720000], qunit = ''MJy / sr''\<rparr> =
        \<lparr>qvalue = map aperture_sum tabs, qunit = qunit (flux (example_spec1d [1, 2]))\<rparr> \<and>
      Some (StdDevUncertainty [2, 3]) = Some (StdDevUncertainty (map aperture_sum_err tabs)))"
  using flux_unit_and_stddev_uncertainty[OF example_run] example_run
  by (simp add: example_fits_def example_spec1d_def)

subsection \<open>Lengths\<close>



text \<open>
  C3, as the notebook has it. In a run that returns, the flux array and the uncertainty
  array handed to \<^verbatim>\<open>Spectrum1D\<close> have the same length. That length is the length of the
  wavelength array exactly when the spectral axis has no more entries than there are SCI
  planes and ERR planes, so in particular when the three lengths agree. The notebook
  compares no lengths: a longer axis is handed over whole, next to the shorter flux.
\<close>

theorem spectral_lengths:
  assumes "extract_spectrum ptw region_init aperture_init phot spectrum_init
      (Inr pix_region) (Inr hdu) (Inr spec1d) = Inr extracted_spec"
  shows "\<exists>es. uncertainty extracted_spec = Some (StdDevUncertainty es) \<and>
      length es = length (qvalue (flux extracted_spec)) \<and>
      (length (qvalue (flux extracted_spec)) = length (qvalue (spectral_axis extracted_spec))
         \<longleftrightarrow> length (qvalue (spectral_axis spec1d)) \<le> length (sci hdu) \<and>
             length (qvalue (spectral_axis spec1d)) \<le> length (err hdu))"
proof -
  from extract_spectrum_Inr[OF assms] have
    same: "spectral_axis extracted_spec = spectral_axis spec1d"
    by auto
  from extract_spectrum_length[OF assms] same show ?thesis
    by auto
qed

theorem spectral_lengths_witness:
  "\<exists>es. Some (StdDevUncertainty [2, 3]) = Some (StdDevUncertainty es) \<and>
     length es = length [36000, 720000 :: real] \<and>
     length [36000, 720000 :: real] = length [1, 2 :: real] \<and>
     length (qvalue (spectral_axis (example_spec1d [1, 2]))) \<le> length (sci example_fits) \<and>
     length (qvalue (spectral_axis (example_spec1d [1, 2]))) \<le> length (err example_fits)"
  using spectral_lengths[OF example_run]
  by (simp add: example_fits_def example_spec1d_def)

text \<open>
  C3 as stated, for every input, fails on three wavelengths and two planes: the run
  returns a flux of two entries and a spectral axis of three.
\<close>

theorem spectral_lengths_counterexample:
  "(let extracted_spec =
      \<lparr>flux = \<lparr>qvalue = [36000, 720000], qunit = ''MJy / sr''\<rparr>,
       spectral_axis = \<lparr>qvalue = [1, 2, 4], qunit = ''um''\<rparr>,
       uncertainty = Some (StdDevUncertainty [2, 3])\<rparr>
    in extract_spectrum example_pixel_to_world example_region_init example_aperture_init
     example_photometry example_spectrum_init (Inr example_selection)
         (Inr example_fits) (Inr (example_spec1d [1, 2, 4])) = Inr extracted_spec \<and>
       length (qvalue (flux extracted_spec)) = 2 \<and>
       length (qvalue (spectral_axis extracted_spec)) = 3)"
  using example_run_long_axis by simp

subsection \<open>Failures\<close>

text \<open>
  C7, as the notebook has it. An exception of \<^verbatim>\<open>get_selection_definition\<close> is the
  outcome of the run, one of the \<^verbatim>\<open>fits.open\<close> block after a selection that arrived is
  the outcome of the run, and when \<^verbatim>\<open>Spectrum1D.read\<close> raises the run ends in an
  exception: in each case there is no flux and no uncertainty. These are not the only
  failures: when \<^verbatim>\<open>Spectrum1D.read\<close> returns a spectrum with an empty spectral axis, the
  run ends in an exception as well.
\<close>

theorem failure_modes:
  "(\<forall>e. selection = Inl e \<longrightarrow>
      extract_spectrum ptw region_init aperture_init phot spectrum_init
        selection fits_open spectrum_read = Inl e) \<and>
   (\<forall>p e. selection = Inr p \<longrightarrow> fits_open = Inl e \<longrightarrow>
      extract_spectrum ptw region_init aperture_init phot spectrum_init
        selection fits_open spectrum_read = Inl e) \<and>
   (\<forall>e. spectrum_read = Inl e \<longrightarrow>
      (\<exists>e'. extract_spectrum ptw region_init aperture_init phot spectrum_init
        selection fits_open spectrum_read = Inl e')) \<and>
   (\<forall>spec1d. spectrum_read = Inr spec1d \<longrightarrow> qvalue (spectral_axis spec1d) = [] \<longrightarrow>
      (\<exists>e'. extract_spectrum ptw region_init aperture_init phot spectrum_init
        selection fits_open spectrum_read = Inl e'))"
  by (auto simp: extract_spectrum_def split: sum.splits option.splits)

theorem failure_modes_witness:
  "extract_spectrum example_pixel_to_world example_region_init example_aperture_init
     example_photometry example_spectrum_init (Inl (Raised ''ValueError''))
     (Inr example_fits) (Inr (example_spec1d [1, 2])) = Inl (Raised ''ValueError'') \<and>
   extract_spectrum example_pixel_to_world example_region_init example_aperture_init
     example_photometry example_spectrum_init (Inr example_selection)
     (Inl (Raised ''FileNotFoundError'')) (Inr (example_spec1d [1, 2])) =
     Inl (Raised ''FileNotFoundError'') \<and>
   (\<exists>e'. extract_spectrum example_pixel_to_world example_region_init example_aperture_init
     example_photometry example_spectrum_init (Inr example_selection)
     (Inr example_fits) (Inl (Raised ''OSError'') :: error + unit spectrum1d) = Inl e') \<and>
   qvalue (spectral_axis (example_spec1d [])) = [] \<and>
   (\<exists>e'. extract_spectrum example_pixel_to_world example_region_init example_aperture_init
     example_photometry example_spectrum_init (Inr example_selection)
     (Inr \<lparr>sci = [], err = [], w_celestial = example_wcs\<rparr>) (Inr (example_spec1d [])) =
     Inl e')"
proof -
  have empty: "qvalue (spectral_axis (example_spec1d [])) = []"
    by (simp add: example_spec1d_def)
  note a = failure_modes[where selection = "Inl (Raised ''ValueError'')"
      and ptw = example_pixel_to_world and region_init = example_region_init
      and aperture_init = example_aperture_init and phot = example_photometry
      and spectrum_init = example_spectrum_init
      and fits_open = "Inr example_fits" and spectrum_read = "Inr (example_spec1d [1, 2])",
      THEN conjunct1, rule_format, OF refl]
  note b = failure_modes[where selection = "Inr example_selection"
      and ptw = example_pixel_to_world and region_init = example_region_init
      and aperture_init = example_aperture_init and phot = example_photometry
      and spectrum_init = example_spectrum_init
      and fits_open = "Inl (Raised ''FileNotFoundError'')"
      and spectrum_read = "Inr (example_spec1d [1, 2])",
      THEN conjunct2, THEN conjunct1, rule_format, OF refl refl]
  note c = failure_modes[where selection = "Inr example_selection"
      and ptw = example_pixel_to_world and region_init = example_region_init
      and aperture_init = example_aperture_init and phot = example_photometry
      and spectrum_init = example_spectrum_init
      and fits_open = "Inr example_fits"
      and spectrum_read = "Inl (Raised ''OSError'') :: error + unit spectrum1d",
      THEN conjunct2, THEN conjunct2, THEN conjunct1, rule_format, OF refl]
  note d = failure_modes[where selection = "Inr example_selection"
      and ptw = example_pixel_to_world and region_init = example_region_init
      and aperture_init = example_aperture_init and phot = example_photometry
      and spectrum_init = example_spectrum_init
      and fits_open = "Inr \<lparr>sci = [], err = [], w_celestial = example_wcs\<rparr>"
      and spectrum_read = "Inr (example_spec1d [])",
      THEN conjunct2, THEN conjunct2, THEN conjunct2, rule_format, OF refl empty]
  from a b c empty d show ?thesis
    by (intro conjI)
qed

text \<open>
  C7 as stated, with no other failure, fails on a cube with no planes and an empty
  spectral axis: the selection, the file and the spectrum all arrive, and the run ends
  in \<open>IndexError\<close>, raised by \<^verbatim>\<open>spec1d.spectral_axis[0]\<close>.
\<close>

theorem failure_modes_counterexample:
  "extract_spectrum example_pixel_to_world example_region_init example_aperture_init
     example_photometry example_spectrum_init (Inr example_selection)
     (Inr \<lparr>sci = [], err = [], w_celestial = example_wcs\<rparr>) (Inr (example_spec1d [])) =
   Inl IndexError"
  by (simp add: example_defs notebook_defs)

end
